theory Spec2Isabelle
  imports Main
begin

section \<open>Resource model of \<^verbatim>\<open>bridges.go\<close>\<close>

text \<open>
  The Go structs of the file, field for field. Every field is a Go \<^verbatim>\<open>string\<close>
  except \<^verbatim>\<open>Channels\<close>, a slice of strings. The zero value of a Go string is the empty
  string, so an unset field and an empty field are the same value.
\<close>

record Bridge =
  Bridge_class :: string
  Bridge_type :: string
  Channels :: "string list"
  Creator :: string
  Id :: string
  Name :: string
  Technology :: string

text \<open>
  Request structure for creating a bridge. The struct tags are
  \<^verbatim>\<open>json:"bridgeId,omitempty"\<close>, \<^verbatim>\<open>json:"type,omitempty"\<close> and
  \<^verbatim>\<open>json:"name,omitempty"\<close>.
\<close>

record CreateBridgeRequest =
  Id :: string
  Type :: string
  Name :: string

text \<open>
  Request structure to add a channel to a bridge. The struct tags are
  \<^verbatim>\<open>json:"channel"\<close> and \<^verbatim>\<open>json:"role,omitempty"\<close>.
\<close>

record AddChannelRequest =
  ChannelId :: string
  Role :: string

text \<open>
  The struct \<^verbatim>\<open>request\<close> declared inside \<^verbatim>\<open>RemoveChannel\<close>, with the one field
  \<^verbatim>\<open>ChannelId\<close> tagged \<^verbatim>\<open>json:"channel"\<close>.
\<close>

datatype RemoveChannel_request = RemoveChannel_request string

text \<open>
  The struct \<^verbatim>\<open>request\<close> declared inside \<^verbatim>\<open>PlayMusicOnHold\<close>, with the one field
  \<^verbatim>\<open>MohClass\<close> tagged \<^verbatim>\<open>json:"mohClass,omitempty"\<close>.
\<close>

datatype PlayMusicOnHold_request = PlayMusicOnHold_request string

text \<open>The zero value of a Bridge, as \<^verbatim>\<open>var m Bridge\<close> leaves it.\<close>

definition zero_Bridge :: Bridge where
  "zero_Bridge = \<lparr>Bridge_class = [], Bridge_type = [], Channels = [], Creator = [],
     Bridge.Id = [], Bridge.Name = [], Technology = []\<rparr>"

section \<open>The transport behind the client\<close>

text \<open>
  A Go \<^verbatim>\<open>error\<close> value that is not nil. The controller never looks inside an error;
  it only tests it against nil and hands it on, so an error is a value with a text.
\<close>

datatype error = TransportError string

datatype http_verb = GET | POST | DELETE

text \<open>
  The request argument \<^verbatim>\<open>req interface{}\<close> of the transport is a pointer to one of the
  request structs (or nil, the \<open>None\<close> of the option type). The types
  \<^verbatim>\<open>PlayMediaRequest\<close> and \<^verbatim>\<open>RecordRequest\<close> are declared in other files of the
  package; they are the type variables \<open>'pm\<close> and \<open>'rr\<close>.
\<close>

datatype ('pm, 'rr) payload =
    CreateBridgeBody CreateBridgeRequest
  | AddChannelBody AddChannelRequest
  | RemoveChannelBody RemoveChannel_request
  | PlayMusicOnHoldBody PlayMusicOnHold_request
  | PlayMediaBody 'pm
  | RecordBody 'rr

text \<open>One round trip as the transport is asked to perform it.\<close>

record ('pm, 'rr) call =
  verb :: http_verb
  path :: string
  body :: "('pm, 'rr) payload option"

text \<open>
  What one round trip does on the caller's side: the error it returns (\<open>None\<close> is
  Go's nil) and what it writes through the target pointer \<^verbatim>\<open>ret\<close>. The target keeps its
  type, so there is one update for each type the controller decodes into. The types
  \<^verbatim>\<open>Playback\<close> and \<^verbatim>\<open>LiveRecording\<close> are declared in other files of the package; they
  are the type variables \<open>'pb\<close> and \<open>'lr\<close>.
\<close>

record ('pb, 'lr) reply =
  err :: "error option"
  into_Bridges :: "Bridge list \<Rightarrow> Bridge list"
  into_Bridge :: "Bridge \<Rightarrow> Bridge"
  into_Playback :: "'pb \<Rightarrow> 'pb"
  into_LiveRecording :: "'lr \<Rightarrow> 'lr"

text \<open>A nil target: nothing is decoded.\<close>

definition into_nil :: "('pb, 'lr) reply \<Rightarrow> unit \<Rightarrow> unit" where
  "into_nil r u = u"

text \<open>
  Everything outside the controller that its operations depend on or act upon: the
  zero values of the two result types declared elsewhere, the unique-id generator (the
  ids it will deliver, and how many it has delivered), the server behind the transport
  (any function of the round trips made so far and the one asked for), and the round
  trips made so far, oldest first.
\<close>

record ('pb, 'lr, 'pm, 'rr) world =
  zero_Playback :: 'pb
  zero_LiveRecording :: 'lr
  uuid_source :: "nat \<Rightarrow> string"
  uuid_count :: nat
  server :: "('pm, 'rr) call list \<Rightarrow> ('pm, 'rr) call \<Rightarrow> ('pb, 'lr) reply"
  calls :: "('pm, 'rr) call list"

text \<open>
  Modelled from the spec: \<^verbatim>\<open>uuid.New()\<close> belongs to the imported package
  \<^verbatim>\<open>go-uuid\<close>, which is not part of the source file. The spec treats it as an opaque
  capability that delivers a string: one call delivers the next id of the generator.
\<close>

definition uuid_New :: "('pb, 'lr, 'pm, 'rr) world \<Rightarrow> string \<times> ('pb, 'lr, 'pm, 'rr) world" where
  "uuid_New w = (uuid_source w (uuid_count w), w\<lparr>uuid_count := Suc (uuid_count w)\<rparr>)"

text \<open>
  Modelled from the spec: the methods \<^verbatim>\<open>AriGet\<close>, \<^verbatim>\<open>AriPost\<close> and \<^verbatim>\<open>AriDelete\<close> of the
  client are defined in another file of the package. The spec describes each as one
  synchronous round trip: perform the request against the path, decode the answer into
  the target or return an error. Here one round trip asks the server of the world for
  its reply, applies it to the target, returns the error, and is recorded. The argument
  \<open>dec\<close> selects the update for the target's type.
\<close>

definition round_trip ::
    "http_verb \<Rightarrow> string \<Rightarrow> (('pb, 'lr) reply \<Rightarrow> 'm \<Rightarrow> 'm) \<Rightarrow> 'm \<Rightarrow> ('pm, 'rr) payload option \<Rightarrow>
     ('pb, 'lr, 'pm, 'rr) world \<Rightarrow> ('m \<times> error option) \<times> ('pb, 'lr, 'pm, 'rr) world" where
  "round_trip mth url dec ret req w =
     (let c = \<lparr>verb = mth, path = url, body = req\<rparr>;
          r = server w (calls w) c
      in ((dec r ret, err r), w\<lparr>calls := calls w @ [c]\<rparr>))"

definition AriGet ::
    "string \<Rightarrow> (('pb, 'lr) reply \<Rightarrow> 'm \<Rightarrow> 'm) \<Rightarrow> 'm \<Rightarrow>
     ('pb, 'lr, 'pm, 'rr) world \<Rightarrow> ('m \<times> error option) \<times> ('pb, 'lr, 'pm, 'rr) world" where
  "AriGet url dec ret w = round_trip GET url dec ret None w"

definition AriPost ::
    "string \<Rightarrow> (('pb, 'lr) reply \<Rightarrow> 'm \<Rightarrow> 'm) \<Rightarrow> 'm \<Rightarrow> ('pm, 'rr) payload option \<Rightarrow>
     ('pb, 'lr, 'pm, 'rr) world \<Rightarrow> ('m \<times> error option) \<times> ('pb, 'lr, 'pm, 'rr) world" where
  "AriPost url dec ret req w = round_trip POST url dec ret req w"

definition AriDelete ::
    "string \<Rightarrow> (('pb, 'lr) reply \<Rightarrow> 'm \<Rightarrow> 'm) \<Rightarrow> 'm \<Rightarrow> ('pm, 'rr) payload option \<Rightarrow>
     ('pb, 'lr, 'pm, 'rr) world \<Rightarrow> ('m \<times> error option) \<times> ('pb, 'lr, 'pm, 'rr) world" where
  "AriDelete url dec ret req w = round_trip DELETE url dec ret req w"

section \<open>The bridge operations of the client\<close>

text \<open>
  Each operation takes the world and returns its Go results together with the world
  after it. A Go result \<^verbatim>\<open>(m, err)\<close> is the pair of both values: the source returns
  \<open>m\<close> also when \<open>err\<close> is not nil.
\<close>

text \<open>\<^verbatim>\<open>ListBridges\<close>: list all active bridges. Equivalent to GET /bridges.\<close>

definition ListBridges ::
    "('pb, 'lr, 'pm, 'rr) world \<Rightarrow> (Bridge list \<times> error option) \<times> ('pb, 'lr, 'pm, 'rr) world" where
  "ListBridges w =
     (let m = [];
          ((m, err), w) = AriGet ''/bridges'' into_Bridges m w
      in if err \<noteq> None then ((m, err), w) else ((m, None), w))"

text \<open>\<^verbatim>\<open>CreateBridge\<close>: create a new bridge. Equivalent to POST /bridges.\<close>

definition CreateBridge ::
    "CreateBridgeRequest \<Rightarrow> ('pb, 'lr, 'pm, 'rr) world \<Rightarrow>
     (Bridge \<times> error option) \<times> ('pb, 'lr, 'pm, 'rr) world" where
  "CreateBridge req w =
     (let m = zero_Bridge;
          ((m, err), w) = AriPost ''/bridges'' into_Bridge m (Some (CreateBridgeBody req)) w
      in if err \<noteq> None then ((m, err), w) else ((m, None), w))"

text \<open>
  \<^verbatim>\<open>UpsertBridge\<close>: update a bridge or create a new one. Equivalent to
  POST /bridges/{bridgeId}.
\<close>

definition UpsertBridge ::
    "string \<Rightarrow> CreateBridgeRequest \<Rightarrow> ('pb, 'lr, 'pm, 'rr) world \<Rightarrow>
     (Bridge \<times> error option) \<times> ('pb, 'lr, 'pm, 'rr) world" where
  "UpsertBridge bridgeId req w =
     (let m = zero_Bridge;
          ((m, err), w) =
            AriPost (''/bridges/'' @ bridgeId) into_Bridge m (Some (CreateBridgeBody req)) w
      in if err \<noteq> None then ((m, err), w) else ((m, None), w))"

text \<open>\<^verbatim>\<open>NewBridge\<close>: a wrapper to create a new, unique bridge with the default options.\<close>

definition NewBridge ::
    "('pb, 'lr, 'pm, 'rr) world \<Rightarrow> (Bridge \<times> error option) \<times> ('pb, 'lr, 'pm, 'rr) world" where
  "NewBridge w =
     (let (id, w) = uuid_New w
      in UpsertBridge id \<lparr>Id = id, Type = [], Name = []\<rparr> w)"

text \<open>\<^verbatim>\<open>GetBridge\<close>: get bridge details. Equivalent to GET /bridges/{bridgeId}.\<close>

definition GetBridge ::
    "string \<Rightarrow> ('pb, 'lr, 'pm, 'rr) world \<Rightarrow>
     (Bridge \<times> error option) \<times> ('pb, 'lr, 'pm, 'rr) world" where
  "GetBridge bridgeId w =
     (let m = zero_Bridge;
          ((m, err), w) = AriGet (''/bridges/'' @ bridgeId) into_Bridge m w
      in if err \<noteq> None then ((m, err), w) else ((m, None), w))"

text \<open>
  \<^verbatim>\<open>AddChannel\<close>: add a channel to a bridge. Equivalent to
  POST /bridges/{bridgeId}/addChannel. There is no model to decode into, so the target
  is nil.
\<close>

definition AddChannel ::
    "string \<Rightarrow> AddChannelRequest \<Rightarrow> ('pb, 'lr, 'pm, 'rr) world \<Rightarrow>
     error option \<times> ('pb, 'lr, 'pm, 'rr) world" where
  "AddChannel bridgeId req w =
     (let ((u, err), w) =
            AriPost (''/bridges/'' @ bridgeId @ ''/addChannel'') into_nil () (Some (AddChannelBody req)) w
      in if err \<noteq> None then (err, w) else (None, w))"

text \<open>
  \<^verbatim>\<open>RemoveChannel\<close>: remove a specific channel from a bridge. Equivalent to
  POST /bridges/{bridgeId}/removeChannel.
\<close>

definition RemoveChannel ::
    "string \<Rightarrow> string \<Rightarrow> ('pb, 'lr, 'pm, 'rr) world \<Rightarrow>
     error option \<times> ('pb, 'lr, 'pm, 'rr) world" where
  "RemoveChannel bridgeId channelId w =
     (let req = RemoveChannel_request channelId;
          ((u, err), w) =
            AriPost (''/bridges/'' @ bridgeId @ ''/removeChannel'') into_nil ()
              (Some (RemoveChannelBody req)) w
      in if err \<noteq> None then (err, w) else (None, w))"

text \<open>
  \<^verbatim>\<open>PlayMusicOnHold\<close>: play music on hold to a bridge or change the class that is
  playing. Equivalent to POST /bridges/{bridgeId}/moh.
\<close>

definition PlayMusicOnHold ::
    "string \<Rightarrow> string \<Rightarrow> ('pb, 'lr, 'pm, 'rr) world \<Rightarrow>
     error option \<times> ('pb, 'lr, 'pm, 'rr) world" where
  "PlayMusicOnHold bridgeId mohClass w =
     (let req = PlayMusicOnHold_request mohClass;
          ((u, err), w) =
            AriPost (''/bridges/'' @ bridgeId @ ''/moh'') into_nil ()
              (Some (PlayMusicOnHoldBody req)) w
      in if err \<noteq> None then (err, w) else (None, w))"

text \<open>
  \<^verbatim>\<open>PlayToBridge\<close>: start playback of media on the bridge. Equivalent to
  POST /bridges/{bridgeId}/play.
\<close>

definition PlayToBridge ::
    "string \<Rightarrow> 'pm \<Rightarrow> ('pb, 'lr, 'pm, 'rr) world \<Rightarrow>
     ('pb \<times> error option) \<times> ('pb, 'lr, 'pm, 'rr) world" where
  "PlayToBridge bridgeId req w =
     (let m = zero_Playback w;
          ((m, err), w) =
            AriPost (''/bridges/'' @ bridgeId @ ''/play'') into_Playback m (Some (PlayMediaBody req)) w
      in if err \<noteq> None then ((m, err), w) else ((m, None), w))"

text \<open>
  \<^verbatim>\<open>PlayToBridgeById\<close>: start playback of specific media on the bridge. Equivalent to
  POST /bridges/{bridgeId}/play/{playbackId}.
\<close>

definition PlayToBridgeById ::
    "string \<Rightarrow> string \<Rightarrow> 'pm \<Rightarrow> ('pb, 'lr, 'pm, 'rr) world \<Rightarrow>
     ('pb \<times> error option) \<times> ('pb, 'lr, 'pm, 'rr) world" where
  "PlayToBridgeById bridgeId playbackId req w =
     (let m = zero_Playback w;
          ((m, err), w) =
            AriPost (''/bridges/'' @ bridgeId @ ''/play/'' @ playbackId) into_Playback m
              (Some (PlayMediaBody req)) w
      in if err \<noteq> None then ((m, err), w) else ((m, None), w))"

text \<open>
  \<^verbatim>\<open>RecordBridge\<close>: start a recording on the bridge. Equivalent to
  POST /bridges/{bridgeId}/record.
\<close>

definition RecordBridge ::
    "string \<Rightarrow> 'rr \<Rightarrow> ('pb, 'lr, 'pm, 'rr) world \<Rightarrow>
     ('lr \<times> error option) \<times> ('pb, 'lr, 'pm, 'rr) world" where
  "RecordBridge bridgeId req w =
     (let m = zero_LiveRecording w;
          ((m, err), w) =
            AriPost (''/bridges/'' @ bridgeId @ ''/record'') into_LiveRecording m
              (Some (RecordBody req)) w
      in if err \<noteq> None then ((m, err), w) else ((m, None), w))"

text \<open>
  \<^verbatim>\<open>BridgeDelete\<close>: shut down a bridge. Equivalent to DELETE /bridges/{bridgeId}. The
  source returns the transport's error as it is.
\<close>

definition BridgeDelete ::
    "string \<Rightarrow> ('pb, 'lr, 'pm, 'rr) world \<Rightarrow> error option \<times> ('pb, 'lr, 'pm, 'rr) world" where
  "BridgeDelete bridgeId w =
     (let ((u, err), w) = AriDelete (''/bridges/'' @ bridgeId) into_nil () None w
      in (err, w))"

text \<open>
  \<^verbatim>\<open>BridgeStopMoh\<close>: stop playing music on hold to a bridge. Equivalent to
  DELETE /bridges/{bridgeId}/moh.
\<close>

definition BridgeStopMoh ::
    "string \<Rightarrow> ('pb, 'lr, 'pm, 'rr) world \<Rightarrow> error option \<times> ('pb, 'lr, 'pm, 'rr) world" where
  "BridgeStopMoh bridgeId w =
     (let ((u, err), w) = AriDelete (''/bridges/'' @ bridgeId @ ''/moh'') into_nil () None w
      in (err, w))"

section \<open>Context-related items\<close>

text \<open>
  A \<^verbatim>\<open>*Bridge\<close> is either the nil pointer or the address of a Bridge value. The
  context functions only pass the pointer along; they never read what it points to.
\<close>

datatype Bridge_ptr = NilPtr | PtrTo nat

text \<open>
  Context keys and values are Go interface values: a dynamic type together with a value
  of that type. Two keys are equal when both the types and the values agree, so a
  \<^verbatim>\<open>bridgeKey\<close> never equals a key of another type, whatever its text. The type
  variable \<open>'k\<close> stands for the keys of every other type.
\<close>

datatype 'k key = bridgeKey string | otherKey 'k

text \<open>
  An interface value that may come back from a lookup: the nil interface, a
  \<^verbatim>\<open>*Bridge\<close> (which may itself be the nil pointer), or a value of some other type.
\<close>

datatype 'v iface = nilIface | BridgePtr Bridge_ptr | otherVal 'v

text \<open>
  Modelled from the spec: the carrier type \<^verbatim>\<open>context.Context\<close> and the function
  \<^verbatim>\<open>context.WithValue\<close> come from the imported package
  \<^verbatim>\<open>golang.org/x/net/context\<close>, which is not part of the source file. The spec
  describes the carrier as an immutable, hierarchical key-value structure: a carrier is
  the empty root, or a node that holds one key, one value and its parent, or a node
  derived from a parent for cancellation or a deadline, which holds no value of its own.
  Parameters of this type range over carriers; Go's nil interface is not a carrier.
\<close>

datatype ('k, 'v) Context =
    emptyCtx
  | valueCtx "('k, 'v) Context" "'k key" "'v iface"
  | cancelCtx "('k, 'v) Context"

text \<open>
  Modelled from the spec: \<^verbatim>\<open>WithValue\<close> returns a new node on top of the parent; the
  parent is a part of the result and is left as it was.
\<close>

definition WithValue :: "('k, 'v) Context \<Rightarrow> 'k key \<Rightarrow> 'v iface \<Rightarrow> ('k, 'v) Context" where
  "WithValue parent k v = valueCtx parent k v"

text \<open>
  Modelled from the spec: the method \<^verbatim>\<open>Value\<close> of a carrier answers with the value of
  the nearest node that holds the key, and with the nil interface when no node does.
\<close>

primrec Value :: "('k, 'v) Context \<Rightarrow> 'k key \<Rightarrow> 'v iface" where
  "Value emptyCtx k = nilIface"
| "Value (valueCtx parent k' v) k = (if k' = k then v else Value parent k)"
| "Value (cancelCtx parent) k = Value parent k"

text \<open>The keys held by the nodes of a carrier, nearest first.\<close>

primrec stored_keys :: "('k, 'v) Context \<Rightarrow> 'k key list" where
  "stored_keys emptyCtx = []"
| "stored_keys (valueCtx parent k v) = k # stored_keys parent"
| "stored_keys (cancelCtx parent) = stored_keys parent"

text \<open>
  The type assertion \<^verbatim>\<open>c, ok := x.(*Bridge)\<close> in its two-result form: it never
  panics; when the dynamic type of \<open>x\<close> is not \<^verbatim>\<open>*Bridge\<close> (the nil interface
  included), \<open>c\<close> is the zero value of the pointer type and \<open>ok\<close> is false.
\<close>

primrec assert_Bridge_ptr :: "'v iface \<Rightarrow> Bridge_ptr \<times> bool" where
  "assert_Bridge_ptr (BridgePtr p) = (p, True)"
| "assert_Bridge_ptr nilIface = (NilPtr, False)"
| "assert_Bridge_ptr (otherVal x) = (NilPtr, False)"

text \<open>\<^verbatim>\<open>NewBridgeContextWithKey\<close>: a context with the bridge attached as the given key.\<close>

definition NewBridgeContextWithKey ::
    "('k, 'v) Context \<Rightarrow> Bridge_ptr \<Rightarrow> string \<Rightarrow> ('k, 'v) Context" where
  "NewBridgeContextWithKey ctx b name = WithValue ctx (bridgeKey name) (BridgePtr b)"

text \<open>\<^verbatim>\<open>NewBridgeContext\<close>: a context with the bridge attached under the default name.\<close>

definition NewBridgeContext :: "('k, 'v) Context \<Rightarrow> Bridge_ptr \<Rightarrow> ('k, 'v) Context" where
  "NewBridgeContext ctx b = NewBridgeContextWithKey ctx b ''_default''"

text \<open>\<^verbatim>\<open>BridgeFromContextWithKey\<close>: the Bridge stored in the context under a name.\<close>

definition BridgeFromContextWithKey :: "('k, 'v) Context \<Rightarrow> string \<Rightarrow> Bridge_ptr \<times> bool" where
  "BridgeFromContextWithKey ctx name = assert_Bridge_ptr (Value ctx (bridgeKey name))"

text \<open>\<^verbatim>\<open>BridgeFromContext\<close>: the default Bridge stored in the context.\<close>

definition BridgeFromContext :: "('k, 'v) Context \<Rightarrow> Bridge_ptr \<times> bool" where
  "BridgeFromContext ctx = BridgeFromContextWithKey ctx ''_default''"

section \<open>Request bodies on the wire\<close>

text \<open>
  A JSON value as far as the request bodies of this file need it: a string or an
  object, the object with its members in the order they are written. A key that is
  not sent is not a member: there is no null member and no empty member in its place.
  A JSON string is the Go string it stands for; how its characters are escaped in the
  bytes of the body is left to the encoder.
\<close>

datatype json = JString string | JObject "(string \<times> json) list"

primrec json_keys :: "json \<Rightarrow> string list" where
  "json_keys (JString s) = []"
| "json_keys (JObject ms) = map fst ms"

text \<open>
  One string field of a request struct as its tag describes it: the JSON key, whether
  the tag carries \<^verbatim>\<open>omitempty\<close>, and the value of the field.
\<close>

datatype field = Field string bool string

primrec field_key :: "field \<Rightarrow> string" where
  "field_key (Field k omitempty v) = k"

text \<open>
  Modelled from the spec: the encoder that turns a request struct into the JSON body
  runs inside the transport, which is defined outside the source file. It follows the
  spec's contract for the resource model: a field marked omit-if-absent is absent from
  the payload when it is unset, and every other field is sent under its key with its
  value as it is. The fields are written in the order of their declaration.
\<close>

primrec marshal_fields :: "field list \<Rightarrow> (string \<times> json) list" where
  "marshal_fields [] = []"
| "marshal_fields (f # fs) =
     (case f of Field k omitempty v \<Rightarrow>
        if omitempty \<and> v = [] then marshal_fields fs
        else (k, JString v) # marshal_fields fs)"

text \<open>The fields of the four request structs of the file, read off their tags.\<close>

definition CreateBridgeRequest_fields :: "CreateBridgeRequest \<Rightarrow> field list" where
  "CreateBridgeRequest_fields req =
     [Field ''bridgeId'' True (Id req), Field ''type'' True (Type req),
      Field ''name'' True (Name req)]"

definition AddChannelRequest_fields :: "AddChannelRequest \<Rightarrow> field list" where
  "AddChannelRequest_fields req =
     [Field ''channel'' False (ChannelId req), Field ''role'' True (Role req)]"

primrec RemoveChannel_request_fields :: "RemoveChannel_request \<Rightarrow> field list" where
  "RemoveChannel_request_fields (RemoveChannel_request channelId) =
     [Field ''channel'' False channelId]"

primrec PlayMusicOnHold_request_fields :: "PlayMusicOnHold_request \<Rightarrow> field list" where
  "PlayMusicOnHold_request_fields (PlayMusicOnHold_request mohClass) =
     [Field ''mohClass'' True mohClass]"

text \<open>
  The JSON body of a request. The encodings of the two request types declared in other
  files are the parameters \<open>em\<close> and \<open>er\<close>.
\<close>

primrec marshal :: "('pm \<Rightarrow> json) \<Rightarrow> ('rr \<Rightarrow> json) \<Rightarrow> ('pm, 'rr) payload \<Rightarrow> json" where
  "marshal em er (CreateBridgeBody req) = JObject (marshal_fields (CreateBridgeRequest_fields req))"
| "marshal em er (AddChannelBody req) = JObject (marshal_fields (AddChannelRequest_fields req))"
| "marshal em er (RemoveChannelBody req) = JObject (marshal_fields (RemoveChannel_request_fields req))"
| "marshal em er (PlayMusicOnHoldBody req) = JObject (marshal_fields (PlayMusicOnHold_request_fields req))"
| "marshal em er (PlayMediaBody req) = em req"
| "marshal em er (RecordBody req) = er req"

text \<open>A round trip as it goes over the wire: method, path and encoded body.\<close>

definition on_wire ::
    "('pm \<Rightarrow> json) \<Rightarrow> ('rr \<Rightarrow> json) \<Rightarrow> ('pm, 'rr) call \<Rightarrow> http_verb \<times> string \<times> json option" where
  "on_wire em er c = (verb c, path c, map_option (marshal em er) (body c))"

text \<open>
  The reply of the world's server to a round trip asked for now, after the round trips
  made so far.
\<close>

definition reply_to ::
    "('pb, 'lr, 'pm, 'rr) world \<Rightarrow> http_verb \<Rightarrow> string \<Rightarrow> ('pm, 'rr) payload option \<Rightarrow> ('pb, 'lr) reply" where
  "reply_to w mth url req = server w (calls w) \<lparr>verb = mth, path = url, body = req\<rparr>"

text \<open>
  A world whose server answers every round trip without an error and with a bridge
  named \<open>b-7\<close>, and whose generator delivers \<open>u-1\<close>.
\<close>

definition stray_world :: "(unit, unit, unit, unit) world" where
  "stray_world =
     \<lparr>zero_Playback = (), zero_LiveRecording = (),
      uuid_source = (\<lambda>n. ''u-1''), uuid_count = 0,
      server = (\<lambda>h c. \<lparr>err = None, into_Bridges = (\<lambda>m. m),
                        into_Bridge = (\<lambda>m. m\<lparr>Bridge.Id := ''b-7''\<rparr>),
                        into_Playback = (\<lambda>m. m), into_LiveRecording = (\<lambda>m. m)\<rparr>),
      calls = []\<rparr>"

text \<open>
  A world whose server echoes the last segment of the path of an upsert as the id of
  the bridge it answers with, and fails every other round trip; its generator counts
  \<open>u\<close>, \<open>uu\<close>, \<open>uuu\<close> and so on.
\<close>

definition echo_world :: "(unit, unit, unit, unit) world" where
  "echo_world =
     \<lparr>zero_Playback = (), zero_LiveRecording = (),
      uuid_source = (\<lambda>n. replicate (Suc n) CHR ''u''), uuid_count = 0,
      server = (\<lambda>h c. \<lparr>err = (if verb c = POST \<and> take 9 (path c) = ''/bridges/'' then None
                               else Some (TransportError ''not found'')),
                        into_Bridges = (\<lambda>m. m),
                        into_Bridge = (\<lambda>m. m\<lparr>Bridge.Id := drop 9 (path c)\<rparr>),
                        into_Playback = (\<lambda>m. m), into_LiveRecording = (\<lambda>m. m)\<rparr>),
      calls = []\<rparr>"

section \<open>Properties of the context helpers\<close>

lemma Value_absent: "k \<notin> set (stored_keys ctx) \<Longrightarrow> Value ctx k = nilIface"
  by (induction ctx) auto

lemma Value_WithValue_same: "Value (WithValue ctx k v) k = v"
  by (simp add: WithValue_def)

lemma Value_WithValue_other: "k' \<noteq> k \<Longrightarrow> Value (WithValue ctx k v) k' = Value ctx k'"
  by (simp add: WithValue_def)

lemma WithValue_new: "WithValue ctx k v \<noteq> ctx"
proof
  assume "WithValue ctx k v = ctx"
  then have "size (valueCtx ctx k v) = size ctx"
    by (simp add: WithValue_def)
  then show False by simp
qed

lemma BridgeFromContextWithKey_attached:
  "BridgeFromContextWithKey (NewBridgeContextWithKey ctx b name) name = (b, True)"
  by (simp add: BridgeFromContextWithKey_def NewBridgeContextWithKey_def Value_WithValue_same)

lemma BridgeFromContextWithKey_other:
  "m \<noteq> name \<Longrightarrow>
   BridgeFromContextWithKey (NewBridgeContextWithKey ctx b name) m = BridgeFromContextWithKey ctx m"
  by (simp add: BridgeFromContextWithKey_def NewBridgeContextWithKey_def Value_WithValue_other)

text \<open>
  Claim C2. For every carrier \<open>ctx\<close> and bridge pointer \<open>b\<close>: retrieving from
  \<open>NewBridgeContext ctx b\<close> returns \<open>(b, true)\<close>; retrieving from the original carrier,
  when no node of it holds the default name, returns \<open>(nil, false)\<close>; the result of the
  attachment is a new carrier, a node placed on top of the original, which is its
  parent and is not changed.
\<close>

theorem C2_attach_then_retrieve:
  "BridgeFromContext (NewBridgeContext ctx b) = (b, True)
   \<and> (bridgeKey ''_default'' \<notin> set (stored_keys ctx) \<longrightarrow> BridgeFromContext ctx = (NilPtr, False))
   \<and> NewBridgeContext ctx b = valueCtx ctx (bridgeKey ''_default'') (BridgePtr b)
   \<and> NewBridgeContext ctx b \<noteq> ctx"
proof -
  have attached: "BridgeFromContext (NewBridgeContext ctx b) = (b, True)"
    by (simp add: BridgeFromContext_def NewBridgeContext_def BridgeFromContextWithKey_attached)
  have original: "bridgeKey ''_default'' \<notin> set (stored_keys ctx) \<longrightarrow>
      BridgeFromContext ctx = (NilPtr, False)"
    by (simp add: BridgeFromContext_def BridgeFromContextWithKey_def Value_absent)
  have node: "NewBridgeContext ctx b = valueCtx ctx (bridgeKey ''_default'') (BridgePtr b)"
    by (simp add: NewBridgeContext_def NewBridgeContextWithKey_def WithValue_def)
  have fresh: "NewBridgeContext ctx b \<noteq> ctx"
    using WithValue_new [of ctx "bridgeKey ''_default''" "BridgePtr b"]
    by (simp add: NewBridgeContext_def NewBridgeContextWithKey_def)
  from attached original node fresh show ?thesis by blast
qed

theorem C2_attach_then_retrieve_witness:
  "BridgeFromContext (NewBridgeContext (emptyCtx :: (nat, nat) Context) (PtrTo 7)) = (PtrTo 7, True)
   \<and> bridgeKey ''_default'' \<notin> set (stored_keys (emptyCtx :: (nat, nat) Context))
   \<and> BridgeFromContext (emptyCtx :: (nat, nat) Context) = (NilPtr, False)
   \<and> NewBridgeContext (emptyCtx :: (nat, nat) Context) (PtrTo 7) \<noteq> emptyCtx"
proof -
  have unattached: "bridgeKey ''_default'' \<notin> set (stored_keys (emptyCtx :: (nat, nat) Context))"
    by simp
  from C2_attach_then_retrieve [of "emptyCtx :: (nat, nat) Context" "PtrTo 7"] unattached
  show ?thesis by blast
qed

text \<open>
  Claim C6. For every carrier and every name, \<open>BridgeFromContextWithKey\<close> returns a
  pair and nothing else: the pointer and true when a \<^verbatim>\<open>*Bridge\<close> is stored under the
  name, and the nil pointer and false in every other case, in particular when no node
  holds the name and when the value stored under it is not a \<^verbatim>\<open>*Bridge\<close>.
\<close>

theorem C6_retrieval_never_faults:
  "BridgeFromContextWithKey ctx name =
     (case Value ctx (bridgeKey name) of
        BridgePtr p \<Rightarrow> (p, True)
      | nilIface \<Rightarrow> (NilPtr, False)
      | otherVal x \<Rightarrow> (NilPtr, False))
   \<and> (bridgeKey name \<notin> set (stored_keys ctx) \<longrightarrow>
        BridgeFromContextWithKey ctx name = (NilPtr, False))
   \<and> ((\<forall>p. Value ctx (bridgeKey name) \<noteq> BridgePtr p) \<longrightarrow>
        BridgeFromContextWithKey ctx name = (NilPtr, False))"
proof -
  have eq: "BridgeFromContextWithKey ctx name =
     (case Value ctx (bridgeKey name) of
        BridgePtr p \<Rightarrow> (p, True)
      | nilIface \<Rightarrow> (NilPtr, False)
      | otherVal x \<Rightarrow> (NilPtr, False))"
    by (cases "Value ctx (bridgeKey name)") (simp_all add: BridgeFromContextWithKey_def)
  have missing: "bridgeKey name \<notin> set (stored_keys ctx) \<longrightarrow>
      BridgeFromContextWithKey ctx name = (NilPtr, False)"
    by (simp add: BridgeFromContextWithKey_def Value_absent)
  have wrong_type: "(\<forall>p. Value ctx (bridgeKey name) \<noteq> BridgePtr p) \<longrightarrow>
      BridgeFromContextWithKey ctx name = (NilPtr, False)"
    by (cases "Value ctx (bridgeKey name)") (simp_all add: BridgeFromContextWithKey_def)
  from eq missing wrong_type show ?thesis by blast
qed

text \<open>
  A carrier that holds a value of another type under the bridge key \<open>me\<close> and nothing
  under \<open>peer\<close>: both retrievals report absence.
\<close>

theorem C6_retrieval_never_faults_witness:
  "bridgeKey ''peer'' \<notin>
     set (stored_keys (valueCtx emptyCtx (bridgeKey ''me'') (otherVal (5::nat)) :: (nat, nat) Context))
   \<and> BridgeFromContextWithKey
       (valueCtx emptyCtx (bridgeKey ''me'') (otherVal (5::nat)) :: (nat, nat) Context) ''peer''
       = (NilPtr, False)
   \<and> Value (valueCtx emptyCtx (bridgeKey ''me'') (otherVal (5::nat)) :: (nat, nat) Context)
         (bridgeKey ''me'') = otherVal 5
   \<and> BridgeFromContextWithKey
       (valueCtx emptyCtx (bridgeKey ''me'') (otherVal (5::nat)) :: (nat, nat) Context) ''me''
       = (NilPtr, False)"
proof -
  let ?ctx = "valueCtx emptyCtx (bridgeKey ''me'') (otherVal (5::nat)) :: (nat, nat) Context"
  have missing: "bridgeKey ''peer'' \<notin> set (stored_keys ?ctx)"
    by simp
  have stored: "Value ?ctx (bridgeKey ''me'') = otherVal 5"
    by simp
  then have wrong_type: "\<forall>p. Value ?ctx (bridgeKey ''me'') \<noteq> BridgePtr p"
    by simp
  from C6_retrieval_never_faults [of ?ctx "''peer''"] missing
  have peer: "BridgeFromContextWithKey ?ctx ''peer'' = (NilPtr, False)" by blast
  from C6_retrieval_never_faults [of ?ctx "''me''"] wrong_type
  have me: "BridgeFromContextWithKey ?ctx ''me'' = (NilPtr, False)" by blast
  from missing peer stored me show ?thesis by blast
qed

text \<open>
  Claim C7. For every carrier \<open>ctx\<close>, bridges \<open>b1\<close> and \<open>b2\<close>, and name \<open>n\<close> other
  than the default name: after attaching \<open>b1\<close> under the default name and then \<open>b2\<close>
  under \<open>n\<close>, \<open>BridgeFromContext\<close> returns \<open>(b1, true)\<close> and
  \<open>BridgeFromContextWithKey\<close> with \<open>n\<close> returns \<open>(b2, true)\<close>. The same holds for any
  two different names, and an attachment under one name leaves the retrieval under
  every other name as it was.
\<close>

theorem C7_named_attachments_coexist:
  "(n \<noteq> ''_default'' \<longrightarrow>
      BridgeFromContext (NewBridgeContextWithKey (NewBridgeContext ctx b1) b2 n) = (b1, True)
      \<and> BridgeFromContextWithKey (NewBridgeContextWithKey (NewBridgeContext ctx b1) b2 n) n
          = (b2, True))
   \<and> (n1 \<noteq> n2 \<longrightarrow>
      BridgeFromContextWithKey (NewBridgeContextWithKey (NewBridgeContextWithKey ctx b1 n1) b2 n2) n1
          = (b1, True)
      \<and> BridgeFromContextWithKey (NewBridgeContextWithKey (NewBridgeContextWithKey ctx b1 n1) b2 n2) n2
          = (b2, True))
   \<and> (m \<noteq> n \<longrightarrow>
      BridgeFromContextWithKey (NewBridgeContextWithKey ctx b n) m = BridgeFromContextWithKey ctx m)"
  by (simp add: BridgeFromContext_def NewBridgeContext_def BridgeFromContextWithKey_attached
      BridgeFromContextWithKey_other)

theorem C7_named_attachments_coexist_witness:
  "''peer'' \<noteq> ''_default''
   \<and> BridgeFromContext
       (NewBridgeContextWithKey (NewBridgeContext (emptyCtx :: (nat, nat) Context) (PtrTo 1))
          (PtrTo 2) ''peer'') = (PtrTo 1, True)
   \<and> BridgeFromContextWithKey
       (NewBridgeContextWithKey (NewBridgeContext (emptyCtx :: (nat, nat) Context) (PtrTo 1))
          (PtrTo 2) ''peer'') ''peer'' = (PtrTo 2, True)
   \<and> ''mine'' \<noteq> ''peer''
   \<and> BridgeFromContextWithKey
       (NewBridgeContextWithKey
          (NewBridgeContextWithKey (emptyCtx :: (nat, nat) Context) (PtrTo 1) ''mine'')
          (PtrTo 2) ''peer'') ''mine'' = (PtrTo 1, True)
   \<and> BridgeFromContextWithKey
       (NewBridgeContextWithKey
          (NewBridgeContextWithKey (emptyCtx :: (nat, nat) Context) (PtrTo 1) ''mine'')
          (PtrTo 2) ''peer'') ''peer'' = (PtrTo 2, True)
   \<and> ''other'' \<noteq> ''peer''
   \<and> BridgeFromContextWithKey
       (NewBridgeContextWithKey (emptyCtx :: (nat, nat) Context) (PtrTo 2) ''peer'') ''other''
       = BridgeFromContextWithKey (emptyCtx :: (nat, nat) Context) ''other''"
proof -
  have names: "''peer'' \<noteq> ''_default''" "''mine'' \<noteq> ''peer''" "''other'' \<noteq> ''peer''"
    by simp_all
  from C7_named_attachments_coexist
    [of "''peer''" "emptyCtx :: (nat, nat) Context" "PtrTo 1" "PtrTo 2" "''mine''" "''peer''"
        "''other''" "PtrTo 2"] names
  show ?thesis by blast
qed

text \<open>
  Claim C10. For every carrier and every name, attaching the nil \<^verbatim>\<open>*Bridge\<close> and then
  retrieving under the same name returns \<open>(nil, true)\<close>: the flag reports that an
  attachment exists although the attached pointer is nil.
\<close>

theorem C10_nil_bridge_is_reported_present:
  "BridgeFromContextWithKey (NewBridgeContextWithKey ctx NilPtr name) name = (NilPtr, True)"
  by (rule BridgeFromContextWithKey_attached)

section \<open>What each operation does to the world and returns\<close>

text \<open>
  Each operation makes the one round trip \<open>c\<close>, returns what the server's reply \<open>r\<close>
  to it left in the target together with the reply's error, and leaves the world with
  \<open>c\<close> added to the round trips made.
\<close>

lemma round_trip_eq:
  "round_trip mth url dec ret req w =
     ((dec (server w (calls w) \<lparr>verb = mth, path = url, body = req\<rparr>) ret,
       err (server w (calls w) \<lparr>verb = mth, path = url, body = req\<rparr>)),
      w\<lparr>calls := calls w @ [\<lparr>verb = mth, path = url, body = req\<rparr>]\<rparr>)"
  by (simp add: round_trip_def Let_def)

lemma propagate_pair: "(if e \<noteq> None then ((m, e), w) else ((m, None), w)) = ((m, e), w)"
  by simp

lemma propagate_err: "(if e \<noteq> None then (e, w) else (None, w)) = (e, w)"
  by simp

lemma ListBridges_eq:
  "ListBridges w =
     ((into_Bridges (server w (calls w) \<lparr>verb = GET, path = ''/bridges'', body = None\<rparr>) [],
       err (server w (calls w) \<lparr>verb = GET, path = ''/bridges'', body = None\<rparr>)),
      w\<lparr>calls := calls w @ [\<lparr>verb = GET, path = ''/bridges'', body = None\<rparr>]\<rparr>)"
  unfolding ListBridges_def AriGet_def round_trip_eq Let_def prod.case propagate_pair ..

lemma CreateBridge_eq:
  "CreateBridge req w =
     ((into_Bridge (server w (calls w)
          \<lparr>verb = POST, path = ''/bridges'', body = Some (CreateBridgeBody req)\<rparr>) zero_Bridge,
       err (server w (calls w)
          \<lparr>verb = POST, path = ''/bridges'', body = Some (CreateBridgeBody req)\<rparr>)),
      w\<lparr>calls := calls w @
          [\<lparr>verb = POST, path = ''/bridges'', body = Some (CreateBridgeBody req)\<rparr>]\<rparr>)"
  unfolding CreateBridge_def AriPost_def round_trip_eq Let_def prod.case propagate_pair ..

lemma UpsertBridge_eq:
  "UpsertBridge bridgeId req w =
     ((into_Bridge (server w (calls w)
          \<lparr>verb = POST, path = ''/bridges/'' @ bridgeId, body = Some (CreateBridgeBody req)\<rparr>)
          zero_Bridge,
       err (server w (calls w)
          \<lparr>verb = POST, path = ''/bridges/'' @ bridgeId, body = Some (CreateBridgeBody req)\<rparr>)),
      w\<lparr>calls := calls w @
          [\<lparr>verb = POST, path = ''/bridges/'' @ bridgeId, body = Some (CreateBridgeBody req)\<rparr>]\<rparr>)"
  unfolding UpsertBridge_def AriPost_def round_trip_eq Let_def prod.case propagate_pair ..

lemma GetBridge_eq:
  "GetBridge bridgeId w =
     ((into_Bridge (server w (calls w)
          \<lparr>verb = GET, path = ''/bridges/'' @ bridgeId, body = None\<rparr>) zero_Bridge,
       err (server w (calls w) \<lparr>verb = GET, path = ''/bridges/'' @ bridgeId, body = None\<rparr>)),
      w\<lparr>calls := calls w @ [\<lparr>verb = GET, path = ''/bridges/'' @ bridgeId, body = None\<rparr>]\<rparr>)"
  unfolding GetBridge_def AriGet_def round_trip_eq Let_def prod.case propagate_pair ..

lemma AddChannel_eq:
  "AddChannel bridgeId req w =
     (err (server w (calls w)
        \<lparr>verb = POST, path = ''/bridges/'' @ bridgeId @ ''/addChannel'',
         body = Some (AddChannelBody req)\<rparr>),
      w\<lparr>calls := calls w @
        [\<lparr>verb = POST, path = ''/bridges/'' @ bridgeId @ ''/addChannel'',
          body = Some (AddChannelBody req)\<rparr>]\<rparr>)"
  unfolding AddChannel_def AriPost_def round_trip_eq Let_def prod.case propagate_err ..

lemma RemoveChannel_eq:
  "RemoveChannel bridgeId channelId w =
     (err (server w (calls w)
        \<lparr>verb = POST, path = ''/bridges/'' @ bridgeId @ ''/removeChannel'',
         body = Some (RemoveChannelBody (RemoveChannel_request channelId))\<rparr>),
      w\<lparr>calls := calls w @
        [\<lparr>verb = POST, path = ''/bridges/'' @ bridgeId @ ''/removeChannel'',
          body = Some (RemoveChannelBody (RemoveChannel_request channelId))\<rparr>]\<rparr>)"
  unfolding RemoveChannel_def AriPost_def round_trip_eq Let_def prod.case propagate_err ..

lemma PlayMusicOnHold_eq:
  "PlayMusicOnHold bridgeId mohClass w =
     (err (server w (calls w)
        \<lparr>verb = POST, path = ''/bridges/'' @ bridgeId @ ''/moh'',
         body = Some (PlayMusicOnHoldBody (PlayMusicOnHold_request mohClass))\<rparr>),
      w\<lparr>calls := calls w @
        [\<lparr>verb = POST, path = ''/bridges/'' @ bridgeId @ ''/moh'',
          body = Some (PlayMusicOnHoldBody (PlayMusicOnHold_request mohClass))\<rparr>]\<rparr>)"
  unfolding PlayMusicOnHold_def AriPost_def round_trip_eq Let_def prod.case propagate_err ..

lemma PlayToBridge_eq:
  "PlayToBridge bridgeId req w =
     ((into_Playback (server w (calls w)
          \<lparr>verb = POST, path = ''/bridges/'' @ bridgeId @ ''/play'',
           body = Some (PlayMediaBody req)\<rparr>) (zero_Playback w),
       err (server w (calls w)
          \<lparr>verb = POST, path = ''/bridges/'' @ bridgeId @ ''/play'',
           body = Some (PlayMediaBody req)\<rparr>)),
      w\<lparr>calls := calls w @
          [\<lparr>verb = POST, path = ''/bridges/'' @ bridgeId @ ''/play'',
            body = Some (PlayMediaBody req)\<rparr>]\<rparr>)"
  unfolding PlayToBridge_def AriPost_def round_trip_eq Let_def prod.case propagate_pair ..

lemma PlayToBridgeById_eq:
  "PlayToBridgeById bridgeId playbackId req w =
     ((into_Playback (server w (calls w)
          \<lparr>verb = POST, path = ''/bridges/'' @ bridgeId @ ''/play/'' @ playbackId,
           body = Some (PlayMediaBody req)\<rparr>) (zero_Playback w),
       err (server w (calls w)
          \<lparr>verb = POST, path = ''/bridges/'' @ bridgeId @ ''/play/'' @ playbackId,
           body = Some (PlayMediaBody req)\<rparr>)),
      w\<lparr>calls := calls w @
          [\<lparr>verb = POST, path = ''/bridges/'' @ bridgeId @ ''/play/'' @ playbackId,
            body = Some (PlayMediaBody req)\<rparr>]\<rparr>)"
  unfolding PlayToBridgeById_def AriPost_def round_trip_eq Let_def prod.case propagate_pair ..

lemma RecordBridge_eq:
  "RecordBridge bridgeId req w =
     ((into_LiveRecording (server w (calls w)
          \<lparr>verb = POST, path = ''/bridges/'' @ bridgeId @ ''/record'',
           body = Some (RecordBody req)\<rparr>) (zero_LiveRecording w),
       err (server w (calls w)
          \<lparr>verb = POST, path = ''/bridges/'' @ bridgeId @ ''/record'',
           body = Some (RecordBody req)\<rparr>)),
      w\<lparr>calls := calls w @
          [\<lparr>verb = POST, path = ''/bridges/'' @ bridgeId @ ''/record'',
            body = Some (RecordBody req)\<rparr>]\<rparr>)"
  unfolding RecordBridge_def AriPost_def round_trip_eq Let_def prod.case propagate_pair ..

lemma BridgeDelete_eq:
  "BridgeDelete bridgeId w =
     (err (server w (calls w) \<lparr>verb = DELETE, path = ''/bridges/'' @ bridgeId, body = None\<rparr>),
      w\<lparr>calls := calls w @ [\<lparr>verb = DELETE, path = ''/bridges/'' @ bridgeId, body = None\<rparr>]\<rparr>)"
  unfolding BridgeDelete_def AriDelete_def round_trip_eq Let_def prod.case ..

lemma BridgeStopMoh_eq:
  "BridgeStopMoh bridgeId w =
     (err (server w (calls w)
        \<lparr>verb = DELETE, path = ''/bridges/'' @ bridgeId @ ''/moh'', body = None\<rparr>),
      w\<lparr>calls := calls w @
        [\<lparr>verb = DELETE, path = ''/bridges/'' @ bridgeId @ ''/moh'', body = None\<rparr>]\<rparr>)"
  unfolding BridgeStopMoh_def AriDelete_def round_trip_eq Let_def prod.case ..

lemma NewBridge_eq:
  "NewBridge w =
     ((into_Bridge (server w (calls w)
          \<lparr>verb = POST, path = ''/bridges/'' @ uuid_source w (uuid_count w),
           body = Some (CreateBridgeBody
                    \<lparr>Id = uuid_source w (uuid_count w), Type = [], Name = []\<rparr>)\<rparr>)
          zero_Bridge,
       err (server w (calls w)
          \<lparr>verb = POST, path = ''/bridges/'' @ uuid_source w (uuid_count w),
           body = Some (CreateBridgeBody
                    \<lparr>Id = uuid_source w (uuid_count w), Type = [], Name = []\<rparr>)\<rparr>)),
      w\<lparr>uuid_count := Suc (uuid_count w),
        calls := calls w @
          [\<lparr>verb = POST, path = ''/bridges/'' @ uuid_source w (uuid_count w),
            body = Some (CreateBridgeBody
                     \<lparr>Id = uuid_source w (uuid_count w), Type = [], Name = []\<rparr>)\<rparr>]\<rparr>)"
  by (simp add: NewBridge_def uuid_New_def UpsertBridge_eq)

section \<open>The wire mapping\<close>

text \<open>
  Claim C4. Every operation of the bridge controller makes exactly one round trip: the
  round trips made after the operation are those made before it followed by one more,
  whose method and path are those of the wire table. The path is the resource root
  \<open>/bridges\<close>, a slash, the id as the caller gave it, and the literal suffix of the
  action, joined as they are, for every id whatever characters it holds.
\<close>

theorem C4_one_round_trip_per_operation:
  "calls (snd (ListBridges w)) =
     calls w @ [\<lparr>verb = GET, path = ''/bridges'', body = None\<rparr>]
   \<and> calls (snd (CreateBridge creq w)) =
     calls w @ [\<lparr>verb = POST, path = ''/bridges'', body = Some (CreateBridgeBody creq)\<rparr>]
   \<and> calls (snd (UpsertBridge bridgeId creq w)) =
     calls w @ [\<lparr>verb = POST, path = ''/bridges/'' @ bridgeId,
                body = Some (CreateBridgeBody creq)\<rparr>]
   \<and> calls (snd (GetBridge bridgeId w)) =
     calls w @ [\<lparr>verb = GET, path = ''/bridges/'' @ bridgeId, body = None\<rparr>]
   \<and> calls (snd (AddChannel bridgeId areq w)) =
     calls w @ [\<lparr>verb = POST, path = ''/bridges/'' @ bridgeId @ ''/addChannel'',
                body = Some (AddChannelBody areq)\<rparr>]
   \<and> calls (snd (RemoveChannel bridgeId channelId w)) =
     calls w @ [\<lparr>verb = POST, path = ''/bridges/'' @ bridgeId @ ''/removeChannel'',
                body = Some (RemoveChannelBody (RemoveChannel_request channelId))\<rparr>]
   \<and> calls (snd (PlayMusicOnHold bridgeId mohClass w)) =
     calls w @ [\<lparr>verb = POST, path = ''/bridges/'' @ bridgeId @ ''/moh'',
                body = Some (PlayMusicOnHoldBody (PlayMusicOnHold_request mohClass))\<rparr>]
   \<and> calls (snd (PlayToBridge bridgeId preq w)) =
     calls w @ [\<lparr>verb = POST, path = ''/bridges/'' @ bridgeId @ ''/play'',
                body = Some (PlayMediaBody preq)\<rparr>]
   \<and> calls (snd (PlayToBridgeById bridgeId playbackId preq w)) =
     calls w @ [\<lparr>verb = POST, path = ''/bridges/'' @ bridgeId @ ''/play/'' @ playbackId,
                body = Some (PlayMediaBody preq)\<rparr>]
   \<and> calls (snd (RecordBridge bridgeId rreq w)) =
     calls w @ [\<lparr>verb = POST, path = ''/bridges/'' @ bridgeId @ ''/record'',
                body = Some (RecordBody rreq)\<rparr>]
   \<and> calls (snd (BridgeDelete bridgeId w)) =
     calls w @ [\<lparr>verb = DELETE, path = ''/bridges/'' @ bridgeId, body = None\<rparr>]
   \<and> calls (snd (BridgeStopMoh bridgeId w)) =
     calls w @ [\<lparr>verb = DELETE, path = ''/bridges/'' @ bridgeId @ ''/moh'', body = None\<rparr>]"
  by (simp add: ListBridges_eq CreateBridge_eq UpsertBridge_eq GetBridge_eq AddChannel_eq
      RemoveChannel_eq PlayMusicOnHold_eq PlayToBridge_eq PlayToBridgeById_eq RecordBridge_eq
      BridgeDelete_eq BridgeStopMoh_eq)

section \<open>Errors and results\<close>

text \<open>
  Claim C5. For every operation of the bridge controller, \<open>NewBridge\<close> included, and
  every reply of the transport: the error the operation returns is the error of the one
  round trip it makes, the same value, nil when the round trip succeeded; the value a
  value-returning operation returns is what the round trip decoded into its zero-valued
  target; the operations without a value (AddChannel, RemoveChannel, PlayMusicOnHold,
  BridgeDelete, BridgeStopMoh) return the error alone. No operation makes a second
  round trip, whether the first one failed or not.
\<close>

theorem C5_error_and_result_of_the_round_trip:
  "fst (ListBridges w) =
     (into_Bridges (reply_to w GET ''/bridges'' None) [],
      err (reply_to w GET ''/bridges'' None))
   \<and> fst (CreateBridge creq w) =
     (into_Bridge (reply_to w POST ''/bridges'' (Some (CreateBridgeBody creq))) zero_Bridge,
      err (reply_to w POST ''/bridges'' (Some (CreateBridgeBody creq))))
   \<and> fst (UpsertBridge bridgeId creq w) =
     (into_Bridge (reply_to w POST (''/bridges/'' @ bridgeId) (Some (CreateBridgeBody creq)))
        zero_Bridge,
      err (reply_to w POST (''/bridges/'' @ bridgeId) (Some (CreateBridgeBody creq))))
   \<and> fst (NewBridge w) =
     (into_Bridge (reply_to w POST (''/bridges/'' @ uuid_source w (uuid_count w))
        (Some (CreateBridgeBody \<lparr>Id = uuid_source w (uuid_count w), Type = [], Name = []\<rparr>)))
        zero_Bridge,
      err (reply_to w POST (''/bridges/'' @ uuid_source w (uuid_count w))
        (Some (CreateBridgeBody \<lparr>Id = uuid_source w (uuid_count w), Type = [], Name = []\<rparr>))))
   \<and> fst (GetBridge bridgeId w) =
     (into_Bridge (reply_to w GET (''/bridges/'' @ bridgeId) None) zero_Bridge,
      err (reply_to w GET (''/bridges/'' @ bridgeId) None))
   \<and> fst (AddChannel bridgeId areq w) =
     err (reply_to w POST (''/bridges/'' @ bridgeId @ ''/addChannel'') (Some (AddChannelBody areq)))
   \<and> fst (RemoveChannel bridgeId channelId w) =
     err (reply_to w POST (''/bridges/'' @ bridgeId @ ''/removeChannel'')
            (Some (RemoveChannelBody (RemoveChannel_request channelId))))
   \<and> fst (PlayMusicOnHold bridgeId mohClass w) =
     err (reply_to w POST (''/bridges/'' @ bridgeId @ ''/moh'')
            (Some (PlayMusicOnHoldBody (PlayMusicOnHold_request mohClass))))
   \<and> fst (PlayToBridge bridgeId preq w) =
     (into_Playback (reply_to w POST (''/bridges/'' @ bridgeId @ ''/play'')
                       (Some (PlayMediaBody preq))) (zero_Playback w),
      err (reply_to w POST (''/bridges/'' @ bridgeId @ ''/play'') (Some (PlayMediaBody preq))))
   \<and> fst (PlayToBridgeById bridgeId playbackId preq w) =
     (into_Playback (reply_to w POST (''/bridges/'' @ bridgeId @ ''/play/'' @ playbackId)
                       (Some (PlayMediaBody preq))) (zero_Playback w),
      err (reply_to w POST (''/bridges/'' @ bridgeId @ ''/play/'' @ playbackId)
             (Some (PlayMediaBody preq))))
   \<and> fst (RecordBridge bridgeId rreq w) =
     (into_LiveRecording (reply_to w POST (''/bridges/'' @ bridgeId @ ''/record'')
                            (Some (RecordBody rreq))) (zero_LiveRecording w),
      err (reply_to w POST (''/bridges/'' @ bridgeId @ ''/record'') (Some (RecordBody rreq))))
   \<and> fst (BridgeDelete bridgeId w) = err (reply_to w DELETE (''/bridges/'' @ bridgeId) None)
   \<and> fst (BridgeStopMoh bridgeId w) =
     err (reply_to w DELETE (''/bridges/'' @ bridgeId @ ''/moh'') None)
   \<and> length (calls (snd (ListBridges w))) = Suc (length (calls w))
   \<and> length (calls (snd (CreateBridge creq w))) = Suc (length (calls w))
   \<and> length (calls (snd (UpsertBridge bridgeId creq w))) = Suc (length (calls w))
   \<and> length (calls (snd (NewBridge w))) = Suc (length (calls w))
   \<and> length (calls (snd (GetBridge bridgeId w))) = Suc (length (calls w))
   \<and> length (calls (snd (AddChannel bridgeId areq w))) = Suc (length (calls w))
   \<and> length (calls (snd (RemoveChannel bridgeId channelId w))) = Suc (length (calls w))
   \<and> length (calls (snd (PlayMusicOnHold bridgeId mohClass w))) = Suc (length (calls w))
   \<and> length (calls (snd (PlayToBridge bridgeId preq w))) = Suc (length (calls w))
   \<and> length (calls (snd (PlayToBridgeById bridgeId playbackId preq w))) = Suc (length (calls w))
   \<and> length (calls (snd (RecordBridge bridgeId rreq w))) = Suc (length (calls w))
   \<and> length (calls (snd (BridgeDelete bridgeId w))) = Suc (length (calls w))
   \<and> length (calls (snd (BridgeStopMoh bridgeId w))) = Suc (length (calls w))"
  by (simp add: reply_to_def ListBridges_eq CreateBridge_eq UpsertBridge_eq NewBridge_eq
      GetBridge_eq AddChannel_eq RemoveChannel_eq PlayMusicOnHold_eq PlayToBridge_eq
      PlayToBridgeById_eq RecordBridge_eq BridgeDelete_eq BridgeStopMoh_eq)

section \<open>NewBridge\<close>

text \<open>
  Claim C1, as the source has it. \<open>NewBridge\<close> asks the unique-id generator once and
  returns the result of \<open>UpsertBridge\<close> called with the generated id both as the path
  segment and as the \<open>Id\<close> field of the request: it makes the one round trip
  POST /bridges/{id} with that body, and returns what that round trip decoded and its
  error. The bridge it returns is the one the server answered with; it carries the
  generated id whenever the server's answer does.
\<close>

theorem C1_NewBridge_upserts_generated_id:
  "NewBridge w =
     UpsertBridge (fst (uuid_New w)) \<lparr>Id = fst (uuid_New w), Type = [], Name = []\<rparr>
       (snd (uuid_New w))
   \<and> fst (uuid_New w) = uuid_source w (uuid_count w)
   \<and> uuid_count (snd (NewBridge w)) = Suc (uuid_count w)
   \<and> calls (snd (NewBridge w)) =
       calls w @ [\<lparr>verb = POST, path = ''/bridges/'' @ fst (uuid_New w),
                  body = Some (CreateBridgeBody \<lparr>Id = fst (uuid_New w), Type = [], Name = []\<rparr>)\<rparr>]
   \<and> fst (NewBridge w) =
       (into_Bridge (reply_to w POST (''/bridges/'' @ fst (uuid_New w))
           (Some (CreateBridgeBody \<lparr>Id = fst (uuid_New w), Type = [], Name = []\<rparr>))) zero_Bridge,
        err (reply_to w POST (''/bridges/'' @ fst (uuid_New w))
           (Some (CreateBridgeBody \<lparr>Id = fst (uuid_New w), Type = [], Name = []\<rparr>))))
   \<and> (Bridge.Id (into_Bridge (reply_to w POST (''/bridges/'' @ fst (uuid_New w))
           (Some (CreateBridgeBody \<lparr>Id = fst (uuid_New w), Type = [], Name = []\<rparr>))) zero_Bridge)
         = fst (uuid_New w)
       \<longrightarrow> Bridge.Id (fst (fst (NewBridge w))) = fst (uuid_New w))"
  by (simp add: NewBridge_def uuid_New_def UpsertBridge_eq reply_to_def)

text \<open>
  In the world whose server echoes the id of the path, \<open>NewBridge\<close> draws the id \<open>u\<close>,
  makes the one round trip POST /bridges/u, and returns without an error a bridge that
  carries \<open>u\<close>.
\<close>

theorem C1_NewBridge_upserts_generated_id_witness:
  "fst (uuid_New echo_world) = ''u''
   \<and> uuid_count (snd (NewBridge echo_world)) = 1
   \<and> calls (snd (NewBridge echo_world)) =
       [\<lparr>verb = POST, path = ''/bridges/u'',
         body = Some (CreateBridgeBody \<lparr>Id = ''u'', Type = [], Name = []\<rparr>)\<rparr>]
   \<and> Bridge.Id (into_Bridge (reply_to echo_world POST ''/bridges/u''
           (Some (CreateBridgeBody \<lparr>Id = ''u'', Type = [], Name = []\<rparr>))) zero_Bridge) = ''u''
   \<and> snd (fst (NewBridge echo_world)) = None
   \<and> Bridge.Id (fst (fst (NewBridge echo_world))) = ''u''"
  using C1_NewBridge_upserts_generated_id [of echo_world]
  by (simp add: uuid_New_def UpsertBridge_eq reply_to_def echo_world_def)

text \<open>
  Claim C1 as it is stated ends with: the bridge returned on success carries the
  generated id. In the world whose server answers every round trip without an error
  and with the bridge \<open>b-7\<close>, \<open>NewBridge\<close> draws the id \<open>u-1\<close> and returns, without an
  error, a bridge whose id is \<open>b-7\<close>.
\<close>

theorem C1_returned_bridge_id_counterexample:
  "snd (fst (NewBridge stray_world)) = None
   \<and> fst (uuid_New stray_world) = ''u-1''
   \<and> Bridge.Id (fst (fst (NewBridge stray_world))) = ''b-7''
   \<and> Bridge.Id (fst (fst (NewBridge stray_world))) \<noteq> fst (uuid_New stray_world)"
  by (simp add: NewBridge_def uuid_New_def UpsertBridge_eq stray_world_def zero_Bridge_def)

section \<open>Omitted fields\<close>

lemma marshal_fields_keys_subset:
  "set (map fst (marshal_fields fs)) \<subseteq> set (map field_key fs)"
proof (induction fs)
  case Nil
  show ?case by simp
next
  case (Cons f fs)
  then show ?case by (cases f) auto
qed

lemma marshal_fields_omitted:
  "Field k True [] \<in> set fs \<Longrightarrow> distinct (map field_key fs) \<Longrightarrow>
   k \<notin> set (map fst (marshal_fields fs))"
proof (induction fs)
  case Nil
  then show ?case by simp
next
  case (Cons f fs)
  obtain k' omit v where f: "f = Field k' omit v" by (cases f)
  show ?case
  proof (cases "f = Field k True []")
    case True
    with Cons.prems have "k \<notin> set (map field_key fs)" by simp
    with marshal_fields_keys_subset [of fs] have "k \<notin> set (map fst (marshal_fields fs))"
      by blast
    with True show ?thesis by simp
  next
    case False
    with Cons.prems have mem: "Field k True [] \<in> set fs" by simp
    with Cons.prems Cons.IH have ih: "k \<notin> set (map fst (marshal_fields fs))" by simp
    from mem have "k \<in> set (map field_key fs)" by force
    with Cons.prems f have "k' \<noteq> k" by auto
    with ih f show ?thesis by simp
  qed
qed

text \<open>
  Claim C3. The body of a CreateBridgeRequest in which only \<open>Name\<close> is set is the
  object with the one member \<open>name\<close>: it has no \<open>bridgeId\<close> key and no \<open>type\<close> key. In
  general every field tagged omit-if-empty is no member of the body when it is unset:
  \<open>bridgeId\<close>, \<open>type\<close> and \<open>name\<close> of a CreateBridgeRequest, \<open>role\<close> of an
  AddChannelRequest, \<open>mohClass\<close> of the music-on-hold request, and any such field of any
  struct whose keys are distinct.
\<close>

theorem C3_unset_optional_fields_are_absent:
  "marshal em er (CreateBridgeBody \<lparr>Id = [], Type = [], Name = n # ns\<rparr>) =
     JObject [(''name'', JString (n # ns))]
   \<and> ''bridgeId'' \<notin>
       set (json_keys (marshal em er (CreateBridgeBody \<lparr>Id = [], Type = [], Name = nm\<rparr>)))
   \<and> ''type'' \<notin>
       set (json_keys (marshal em er (CreateBridgeBody \<lparr>Id = [], Type = [], Name = nm\<rparr>)))
   \<and> (Id creq = [] \<longrightarrow>
        ''bridgeId'' \<notin> set (json_keys (marshal em er (CreateBridgeBody creq))))
   \<and> (Type creq = [] \<longrightarrow>
        ''type'' \<notin> set (json_keys (marshal em er (CreateBridgeBody creq))))
   \<and> (Name creq = [] \<longrightarrow>
        ''name'' \<notin> set (json_keys (marshal em er (CreateBridgeBody creq))))
   \<and> (Role areq = [] \<longrightarrow>
        ''role'' \<notin> set (json_keys (marshal em er (AddChannelBody areq))))
   \<and> ''mohClass'' \<notin>
       set (json_keys (marshal em er (PlayMusicOnHoldBody (PlayMusicOnHold_request []))))
   \<and> (Field k True [] \<in> set fs \<and> distinct (map field_key fs) \<longrightarrow>
        k \<notin> set (json_keys (JObject (marshal_fields fs))))"
proof -
  have general: "Field k True [] \<in> set fs \<and> distinct (map field_key fs) \<longrightarrow>
      k \<notin> set (json_keys (JObject (marshal_fields fs)))"
    using marshal_fields_omitted [of k fs] by simp
  have structs: "marshal em er (CreateBridgeBody \<lparr>Id = [], Type = [], Name = n # ns\<rparr>) =
     JObject [(''name'', JString (n # ns))]
   \<and> ''bridgeId'' \<notin>
       set (json_keys (marshal em er (CreateBridgeBody \<lparr>Id = [], Type = [], Name = nm\<rparr>)))
   \<and> ''type'' \<notin>
       set (json_keys (marshal em er (CreateBridgeBody \<lparr>Id = [], Type = [], Name = nm\<rparr>)))
   \<and> (Id creq = [] \<longrightarrow>
        ''bridgeId'' \<notin> set (json_keys (marshal em er (CreateBridgeBody creq))))
   \<and> (Type creq = [] \<longrightarrow>
        ''type'' \<notin> set (json_keys (marshal em er (CreateBridgeBody creq))))
   \<and> (Name creq = [] \<longrightarrow>
        ''name'' \<notin> set (json_keys (marshal em er (CreateBridgeBody creq))))
   \<and> (Role areq = [] \<longrightarrow>
        ''role'' \<notin> set (json_keys (marshal em er (AddChannelBody areq))))
   \<and> ''mohClass'' \<notin>
       set (json_keys (marshal em er (PlayMusicOnHoldBody (PlayMusicOnHold_request []))))"
    by (simp add: CreateBridgeRequest_fields_def AddChannelRequest_fields_def)
  from structs general show ?thesis by blast
qed

text \<open>
  A request that names the bridge \<open>conf\<close> and sets nothing else is sent as the object
  with the one member \<open>name\<close>; a request to add the channel \<open>c1\<close> without a role is
  sent without a \<open>role\<close> member.
\<close>

theorem C3_unset_optional_fields_are_absent_witness:
  "marshal (\<lambda>u::unit. JObject []) (\<lambda>u::unit. JObject [])
      (CreateBridgeBody \<lparr>Id = [], Type = [], Name = ''conf''\<rparr>)
      = JObject [(''name'', JString ''conf'')]
   \<and> Id \<lparr>Id = [], Type = [], Name = ''conf''\<rparr> = []
   \<and> ''bridgeId'' \<notin> set (json_keys (marshal (\<lambda>u::unit. JObject []) (\<lambda>u::unit. JObject [])
      (CreateBridgeBody \<lparr>Id = [], Type = [], Name = ''conf''\<rparr>)))
   \<and> Type \<lparr>Id = [], Type = [], Name = ''conf''\<rparr> = []
   \<and> ''type'' \<notin> set (json_keys (marshal (\<lambda>u::unit. JObject []) (\<lambda>u::unit. JObject [])
      (CreateBridgeBody \<lparr>Id = [], Type = [], Name = ''conf''\<rparr>)))
   \<and> Name \<lparr>Id = ''b1'', Type = ''mixing'', Name = []\<rparr> = []
   \<and> ''name'' \<notin> set (json_keys (marshal (\<lambda>u::unit. JObject []) (\<lambda>u::unit. JObject [])
      (CreateBridgeBody \<lparr>Id = ''b1'', Type = ''mixing'', Name = []\<rparr>)))
   \<and> Role \<lparr>ChannelId = ''c1'', Role = []\<rparr> = []
   \<and> ''role'' \<notin> set (json_keys (marshal (\<lambda>u::unit. JObject []) (\<lambda>u::unit. JObject [])
      (AddChannelBody \<lparr>ChannelId = ''c1'', Role = []\<rparr>)))
   \<and> Field ''type'' True [] \<in> set [Field ''type'' True [], Field ''name'' True ''conf'']
   \<and> distinct (map field_key [Field ''type'' True [], Field ''name'' True ''conf''])
   \<and> ''type'' \<notin>
       set (json_keys (JObject (marshal_fields [Field ''type'' True [], Field ''name'' True ''conf''])))"
proof -
  have unset: "Id \<lparr>Id = [], Type = [], Name = ''conf''\<rparr> = []"
    "Type \<lparr>Id = [], Type = [], Name = ''conf''\<rparr> = []"
    "Name \<lparr>Id = ''b1'', Type = ''mixing'', Name = []\<rparr> = []"
    "Role \<lparr>ChannelId = ''c1'', Role = []\<rparr> = []"
    by simp_all
  have fields: "Field ''type'' True [] \<in> set [Field ''type'' True [], Field ''name'' True ''conf'']"
    "distinct (map field_key [Field ''type'' True [], Field ''name'' True ''conf''])"
    by simp_all
  from C3_unset_optional_fields_are_absent
    [of "\<lambda>u::unit. JObject []" "\<lambda>u::unit. JObject []" "CHR ''c''" "''onf''" "[]"
        "\<lparr>Id = [], Type = [], Name = ''conf''\<rparr>" "\<lparr>ChannelId = ''c1'', Role = []\<rparr>"
        "''type''" "[Field ''type'' True [], Field ''name'' True ''conf'']"]
    C3_unset_optional_fields_are_absent
    [of "\<lambda>u::unit. JObject []" "\<lambda>u::unit. JObject []" "CHR ''c''" "''onf''" "[]"
        "\<lparr>Id = ''b1'', Type = ''mixing'', Name = []\<rparr>" "\<lparr>ChannelId = ''c1'', Role = []\<rparr>"
        "''type''" "[Field ''type'' True [], Field ''name'' True ''conf'']"]
    unset fields
  show ?thesis by blast
qed

section \<open>The bodies of PlayMusicOnHold and AddChannel\<close>

text \<open>
  Claim C8. \<open>PlayMusicOnHold\<close> with an empty class makes its one round trip with the
  empty object as body, which has no \<open>mohClass\<close> key; with a class that is not empty
  the body is the object with the one member \<open>mohClass\<close>, whose value is the class.
\<close>

theorem C8_PlayMusicOnHold_body:
  "map (on_wire em er) (calls (snd (PlayMusicOnHold bridgeId [] w))) =
     map (on_wire em er) (calls w) @
       [(POST, ''/bridges/'' @ bridgeId @ ''/moh'', Some (JObject []))]
   \<and> ''mohClass'' \<notin>
       set (json_keys (marshal em er (PlayMusicOnHoldBody (PlayMusicOnHold_request []))))
   \<and> map (on_wire em er) (calls (snd (PlayMusicOnHold bridgeId (c # cs) w))) =
     map (on_wire em er) (calls w) @
       [(POST, ''/bridges/'' @ bridgeId @ ''/moh'',
         Some (JObject [(''mohClass'', JString (c # cs))]))]"
  by (simp add: PlayMusicOnHold_eq on_wire_def)

text \<open>
  Claim C9. \<open>AddChannel\<close> makes its one round trip with a body whose first member is
  \<open>channel\<close>, always there, with the \<open>ChannelId\<close> of the request as its value,
  unchanged whatever it is (empty, or several ids joined by commas); the member \<open>role\<close>
  follows when and only when \<open>Role\<close> is not empty. The only error \<open>AddChannel\<close> returns
  is the one of that round trip: it rejects no request itself.
\<close>

theorem C9_AddChannel_body:
  "map (on_wire em er) (calls (snd (AddChannel bridgeId areq w))) =
     map (on_wire em er) (calls w) @
       [(POST, ''/bridges/'' @ bridgeId @ ''/addChannel'',
         Some (JObject ((''channel'', JString (ChannelId areq)) #
                        (if Role areq = [] then [] else [(''role'', JString (Role areq))]))))]
   \<and> fst (AddChannel bridgeId areq w) =
       err (reply_to w POST (''/bridges/'' @ bridgeId @ ''/addChannel'')
              (Some (AddChannelBody areq)))
   \<and> marshal em er (AddChannelBody \<lparr>ChannelId = [], Role = []\<rparr>) =
       JObject [(''channel'', JString [])]
   \<and> marshal em er (AddChannelBody \<lparr>ChannelId = ''c1,c2'', Role = []\<rparr>) =
       JObject [(''channel'', JString ''c1,c2'')]"
  by (simp add: AddChannel_eq on_wire_def reply_to_def AddChannelRequest_fields_def)

end
